theory Spec2Isabelle
  imports Main "HOL-Library.Word"
begin

unbundle bit_operations_syntax

section \<open>Data model of googleauth.go\<close>

text \<open>
  The gate of \<^verbatim>\<open>googleauth.go\<close> talks to four collaborators that live outside the
  repository: the cookie codec (\<^verbatim>\<open>github.com/kr/session\<close>), the OAuth2 client
  (\<^verbatim>\<open>golang.org/x/oauth2\<close>), the Go standard library (\<^verbatim>\<open>net/http\<close>,
  \<^verbatim>\<open>encoding/json\<close>, \<^verbatim>\<open>crypto/rand\<close>, \<^verbatim>\<open>os\<close>) and the protected handler.
  Their answers are inputs of the model (the record \<open>world\<close>); every call the gate makes
  on them that is visible from outside is recorded as an \<open>event\<close>, in program order.
  Record fields carry a prefix where two Go structs share a field name.
\<close>

type_synonym byte = "8 word"

text \<open>\<^verbatim>\<open>oauth2.Token\<close>: an opaque credential; \<^verbatim>\<open>Expiry\<close> is kept as a number.\<close>

record Token =
  AccessToken :: string
  TokenType :: string
  RefreshToken :: string
  Expiry :: int

text \<open>\<^verbatim>\<open>type sess struct\<close> (lines 250-254). \<^verbatim>\<open>OAuthToken\<close> is a pointer: \<open>None\<close> is nil.\<close>

record sess =
  OAuthToken :: "Token option"
  NextURL :: string
  State :: string

definition sess_zero :: sess where
  "sess_zero = \<lparr>OAuthToken = None, NextURL = [], State = []\<rparr>"

text \<open>\<^verbatim>\<open>session.Config\<close>; \<^verbatim>\<open>MaxAge\<close> is a \<^verbatim>\<open>time.Duration\<close>, in nanoseconds.\<close>

record session_Config =
  cfg_Name :: string
  cfg_Path :: string
  cfg_Domain :: string
  cfg_MaxAge :: int
  cfg_Keys :: "byte list list"

record oauth2_Endpoint =
  AuthURL :: string
  TokenURL :: string

text \<open>\<^verbatim>\<open>oauth2.Config\<close>; \<^verbatim>\<open>Scopes\<close> is a slice that the code compares with nil.\<close>

record oauth2_Config =
  conf_ClientID :: string
  conf_ClientSecret :: string
  conf_RedirectURL :: string
  conf_Scopes :: "string list option"
  conf_Endpoint :: oauth2_Endpoint

text \<open>The \<^verbatim>\<open>*http.Client\<close> that \<^verbatim>\<open>conf.Client(ctx, tok)\<close> builds.\<close>

datatype Client = Client oauth2_Config "Token option"

text \<open>\<^verbatim>\<open>type Session struct { *http.Client }\<close> (lines 23-28).\<close>

datatype Session = Session Client

text \<open>
  A \<^verbatim>\<open>context.Context\<close> is read only through \<^verbatim>\<open>sessionKey\<close>: the model keeps the value
  stored under that key.
\<close>

type_synonym Context = "Session option"

definition GetSession :: "Context \<Rightarrow> Session option \<times> bool" where
  "GetSession ctx = (case ctx of None \<Rightarrow> (None, False) | Some s \<Rightarrow> (Some s, True))"

text \<open>
  \<^verbatim>\<open>http.Handler\<close> values: the default mux, a plain handler, or one that also implements
  \<^verbatim>\<open>ContextHandler\<close>.
\<close>

datatype Handler = DefaultServeMux | PlainHandler string | ContextHandler string

record OAuthHandler =
  RequireDomain :: string
  Name :: string
  Path :: string
  Domain :: string
  MaxAge :: int
  Key :: string
  ClientID :: string
  ClientSecret :: string
  Scopes :: "string list option"
  Handler :: "Handler option"

record URL =
  url_Scheme :: string
  url_Host :: string
  url_Path :: string
  url_RawQuery :: string

text \<open>The parts of \<^verbatim>\<open>*http.Request\<close> the gate reads. \<^verbatim>\<open>req_Form\<close> is the parsed form.\<close>

record Request =
  req_Host :: string
  req_URL :: URL
  req_Form :: "string \<rightharpoonup> string list"
  req_Cookies :: "(string \<times> string) list"

text \<open>\<^verbatim>\<open>r.FormValue(key)\<close>: the first value of the key, the empty string when there is none.\<close>

definition FormValue :: "Request \<Rightarrow> string \<Rightarrow> string" where
  "FormValue r k = (case req_Form r k of None \<Rightarrow> [] | Some [] \<Rightarrow> [] | Some (v # _) \<Rightarrow> v)"

record Response =
  StatusCode :: int
  Body :: string

record googleProfile =
  ID :: string
  DisplayName :: string
  FamilyName :: string
  GivenName :: string
  Email :: string

text \<open>
  The error of \<^verbatim>\<open>session.Get\<close>: \<^verbatim>\<open>http.ErrNoCookie\<close> or anything else (bad encoding, failed
  authentication, expired box, bad JSON).
\<close>

datatype get_error = ErrNoCookie | DecodeError string

subsection \<open>The collaborators\<close>

record world =
  env_KEY :: string
    \<comment> \<open>\<^verbatim>\<open>os.Getenv("KEY")\<close>\<close>
  Endpoint :: oauth2_Endpoint
    \<comment> \<open>the package variable \<^verbatim>\<open>Endpoint\<close>\<close>
  session_Get :: "Request \<Rightarrow> sess \<Rightarrow> session_Config \<Rightarrow> sess \<times> get_error option"
    \<comment> \<open>\<^verbatim>\<open>session.Get(r, &v, config)\<close>: the value of \<open>v\<close> afterwards and the error\<close>
  oauth2_Exchange :: "oauth2_Config \<Rightarrow> string \<Rightarrow> string + Token"
    \<comment> \<open>\<^verbatim>\<open>conf.Exchange(ctx, code)\<close>: \<open>Inl\<close> is the error\<close>
  oauth2_AuthCodeURL :: "oauth2_Config \<Rightarrow> string \<Rightarrow> string"
    \<comment> \<open>\<^verbatim>\<open>conf.AuthCodeURL(state)\<close>\<close>
  client_Get :: "Client \<Rightarrow> string \<Rightarrow> Response option \<times> string option"
    \<comment> \<open>\<^verbatim>\<open>client.Get(url)\<close>: the response pointer and the error, either may be nil\<close>
  json_Decode :: "string \<Rightarrow> string + googleProfile"
    \<comment> \<open>\<^verbatim>\<open>json.NewDecoder(body).Decode(gp)\<close>: \<open>Inl\<close> is the error\<close>
  url_String :: "URL \<Rightarrow> string"
    \<comment> \<open>\<^verbatim>\<open>(*url.URL).String\<close>\<close>
  rand_Read :: "byte list"
    \<comment> \<open>the bytes \<^verbatim>\<open>rand.Read\<close> delivers\<close>

subsection \<open>Observable calls and ways to stop\<close>

datatype event =
    SetCookie session_Config sess
      \<comment> \<open>\<^verbatim>\<open>session.Set(w, v, config)\<close>\<close>
  | HttpError string int
      \<comment> \<open>\<^verbatim>\<open>http.Error(w, msg, code)\<close>\<close>
  | HttpRedirect string int
      \<comment> \<open>\<^verbatim>\<open>http.Redirect(w, r, url, code)\<close>\<close>
  | ExchangeCall oauth2_Config string
      \<comment> \<open>\<^verbatim>\<open>conf.Exchange(ctx, code)\<close>\<close>
  | ProfileGet Client string
      \<comment> \<open>\<^verbatim>\<open>client.Get(url)\<close> inside \<^verbatim>\<open>domainAllowed\<close>\<close>
  | LogError string
      \<comment> \<open>\<^verbatim>\<open>log.WithFields(lf).Error(msg)\<close>\<close>
  | CallServeHTTP Handler
      \<comment> \<open>\<^verbatim>\<open>handler.ServeHTTP(w, r)\<close>\<close>
  | CallServeHTTPContext Handler Context
      \<comment> \<open>\<^verbatim>\<open>h2.ServeHTTPContext(ctx, w, r)\<close>\<close>

text \<open>
  A Go function returns, ends the process (\<^verbatim>\<open>os.Exit\<close>) or panics (here: a nil pointer
  dereference).
\<close>

datatype 'a result = Return 'a | Exit int | Panic string

type_synonym 'a proc = "event list \<times> 'a result"

definition ret :: "'a \<Rightarrow> 'a proc" where
  "ret x = ([], Return x)"

definition emit :: "event \<Rightarrow> unit proc" where
  "emit e = ([e], Return ())"

definition os_Exit :: "int \<Rightarrow> 'a proc" where
  "os_Exit n = ([], Exit n)"

definition panic :: "string \<Rightarrow> 'a proc" where
  "panic s = ([], Panic s)"

text \<open>Sequencing: the second part runs only when the first one returned.\<close>

fun and_then :: "'a proc \<Rightarrow> ('a \<Rightarrow> 'b proc) \<Rightarrow> 'b proc" where
  "and_then (es, Return x) f = (es @ fst (f x), snd (f x))"
| "and_then (es, Exit n) f = (es, Exit n)"
| "and_then (es, Panic s) f = (es, Panic s)"

section \<open>Library functions the code relies on\<close>

subsection \<open>\<^verbatim>\<open>encoding/hex\<close>\<close>

definition fromHexChar :: "char \<Rightarrow> byte option" where
  "fromHexChar c =
     (let n = (of_char c :: nat) in
      if 48 \<le> n \<and> n \<le> 57 then Some (of_nat (n - 48))
      else if 97 \<le> n \<and> n \<le> 102 then Some (of_nat (n - 87))
      else if 65 \<le> n \<and> n \<le> 70 then Some (of_nat (n - 55))
      else None)"

text \<open>
  \<^verbatim>\<open>hex.DecodeString\<close>: \<open>None\<close> is an error (a character that is no hexadecimal digit, or
  an odd length).
\<close>

fun hex_DecodeString :: "string \<Rightarrow> byte list option" where
  "hex_DecodeString [] = Some []"
| "hex_DecodeString [p] = None"
| "hex_DecodeString (p # q # s) =
     (case fromHexChar p of
        None \<Rightarrow> None
      | Some a \<Rightarrow>
          (case fromHexChar q of
             None \<Rightarrow> None
           | Some b \<Rightarrow>
               (case hex_DecodeString s of
                  None \<Rightarrow> None
                | Some bs \<Rightarrow> Some ((push_bit 4 a OR b) # bs))))"

definition hextable :: string where
  "hextable = ''0123456789abcdef''"

definition hex_EncodeToString :: "byte list \<Rightarrow> string" where
  "hex_EncodeToString bs =
     concat (map (\<lambda>v. [hextable ! unat (drop_bit 4 v), hextable ! unat (v AND 15)]) bs)"

subsection \<open>\<^verbatim>\<open>strings.Split\<close> with a one-byte separator\<close>

fun Split :: "string \<Rightarrow> char \<Rightarrow> string list" where
  "Split [] c = [[]]"
| "Split (x # xs) c =
     (if x = c then [] # Split xs c
      else (case Split xs c of [] \<Rightarrow> [[x]] | y # ys \<Rightarrow> (x # y) # ys))"

section \<open>The functions of googleauth.go\<close>

definition callbackPath :: string where
  "callbackPath = ''/oauth2callback''"

definition profileURL :: string where
  "profileURL = ''https://www.googleapis.com/oauth2/v1/userinfo''"

text \<open>
  \<^verbatim>\<open>domainAllowed\<close> (lines 179-207). Go's \<^verbatim>\<open>||\<close> evaluates its right operand only when
  the left one is false, so line 182 reads \<^verbatim>\<open>resp.StatusCode\<close> only when \<^verbatim>\<open>err\<close> is nil;
  line 183 reads it on every path that enters the branch.
\<close>

definition domainAllowed :: "world \<Rightarrow> Client \<Rightarrow> string \<Rightarrow> bool proc" where
  "domainAllowed W client domain =
     and_then (emit (ProfileGet client profileURL)) (\<lambda>_.
       case client_Get W client profileURL of
         (resp, Some err) \<Rightarrow>
           (case resp of
              None \<Rightarrow> panic ''nil pointer dereference''
            | Some rp \<Rightarrow> and_then (emit (LogError ''Couldn't reach Google'')) (\<lambda>_. ret False))
       | (None, None) \<Rightarrow> panic ''nil pointer dereference''
       | (Some rp, None) \<Rightarrow>
           if StatusCode rp = 200 then
             (case json_Decode W (Body rp) of
                Inl err \<Rightarrow> and_then (emit (LogError ''Failed to decode json'')) (\<lambda>_. ret False)
              | Inr gp \<Rightarrow>
                  (let user = Split (Email gp) CHR ''@'' in
                   if length user < 2 then
                     and_then (emit (LogError ''Invalid email'')) (\<lambda>_. ret False)
                   else if user ! 1 = domain then ret True
                   else and_then (emit (LogError ''Invalid email'')) (\<lambda>_. ret False)))
           else and_then (emit (LogError ''Couldn't reach Google'')) (\<lambda>_. ret False))"

text \<open>
  \<^verbatim>\<open>keys\<close> (lines 209-228). The parameter \<open>s\<close> is not read: the key comes from the
  environment variable \<^verbatim>\<open>KEY\<close>.
\<close>

definition keys :: "world \<Rightarrow> string \<Rightarrow> byte list list proc" where
  "keys W s =
     (case hex_DecodeString (env_KEY W) of
        None \<Rightarrow> and_then (emit (LogError ''Invalid Key Code'')) (\<lambda>_. os_Exit 1)
      | Some key \<Rightarrow>
          if length key = 32 then ret [key]
          else and_then (emit (LogError ''Invalid Key Length'')) (\<lambda>_. os_Exit 1))"

text \<open>\<^verbatim>\<open>sessionConfig\<close> (lines 230-242).\<close>

definition sessionConfig :: "world \<Rightarrow> OAuthHandler \<Rightarrow> session_Config proc" where
  "sessionConfig W h =
     and_then (keys W (Key h)) (\<lambda>ks.
       let c = \<lparr>cfg_Name = Name h, cfg_Path = Path h, cfg_Domain = Domain h,
                cfg_MaxAge = MaxAge h, cfg_Keys = ks\<rparr>
       in ret (if cfg_Name c = [] then c\<lparr>cfg_Name := ''googlegoauth''\<rparr> else c))"

text \<open>\<^verbatim>\<open>deleteCookie\<close> (lines 244-248): \<^verbatim>\<open>-1 * time.Second\<close> is \<open>-10\<^sup>9\<close> nanoseconds.\<close>

definition deleteCookie :: "world \<Rightarrow> OAuthHandler \<Rightarrow> unit proc" where
  "deleteCookie W h =
     and_then (sessionConfig W h) (\<lambda>conf.
       emit (SetCookie (conf\<lparr>cfg_MaxAge := - 1000000000\<rparr>) sess_zero))"

text \<open>
  \<^verbatim>\<open>newState\<close> (lines 256-260): a slice of ten zero bytes, overwritten by what
  \<^verbatim>\<open>rand.Read\<close> delivers (its error is ignored), in lowercase hexadecimal.
\<close>

definition newState :: "world \<Rightarrow> string" where
  "newState W =
     (let got = take 10 (rand_Read W);
          b = got @ replicate (10 - length got) 0
      in hex_EncodeToString b)"

definition defaultScopes :: "string list" where
  "defaultScopes = [''https://www.googleapis.com/auth/userinfo.email'',
                    ''https://www.googleapis.com/auth/userinfo.profile'']"

text \<open>The \<^verbatim>\<open>oauth2.Config\<close> built at lines 114-125.\<close>

definition oauthConf :: "world \<Rightarrow> OAuthHandler \<Rightarrow> Request \<Rightarrow> oauth2_Config" where
  "oauthConf W h r =
     (let conf = \<lparr>conf_ClientID = ClientID h, conf_ClientSecret = ClientSecret h,
                   conf_RedirectURL = ''https://'' @ req_Host r @ callbackPath,
                   conf_Scopes = Scopes h, conf_Endpoint = Endpoint W\<rparr>
      in if conf_Scopes conf = None then conf\<lparr>conf_Scopes := Some defaultScopes\<rparr> else conf)"

text \<open>
  \<^verbatim>\<open>loginOk\<close> (lines 104-168). \<^verbatim>\<open>session.Get\<close> starts from the zero value of
  \<^verbatim>\<open>sess\<close>; every use of \<^verbatim>\<open>h.sessionConfig()\<close> is a call of its own.
\<close>

definition loginOk :: "world \<Rightarrow> OAuthHandler \<Rightarrow> Context \<Rightarrow> Request \<Rightarrow> (Context \<times> bool) proc" where
  "loginOk W h ctx r =
     and_then (sessionConfig W h) (\<lambda>cfg0.
       case session_Get W r sess_zero cfg0 of
         (user, Some (DecodeError e)) \<Rightarrow>
           and_then (deleteCookie W h) (\<lambda>_.
           and_then (emit (HttpError ''internal error'' 500)) (\<lambda>_.
           ret (ctx, False)))
       | (user, _) \<Rightarrow>
           (let conf = oauthConf W h r in
            case OAuthToken user of
              Some tok \<Rightarrow>
                and_then (sessionConfig W h) (\<lambda>cfg1.
                and_then (emit (SetCookie cfg1 user)) (\<lambda>_.
                ret (Some (Session (Client conf (OAuthToken user))), True)))
            | None \<Rightarrow>
                if url_Path (req_URL r) = callbackPath then
                  (if FormValue r ''state'' = State user then
                     and_then (emit (ExchangeCall conf (FormValue r ''code''))) (\<lambda>_.
                       case oauth2_Exchange W conf (FormValue r ''code'') of
                         Inl err \<Rightarrow>
                           and_then (deleteCookie W h) (\<lambda>_.
                           and_then (emit (LogError ''Invalid credentials'')) (\<lambda>_.
                           and_then (emit (HttpError ''access forbidden'' 401)) (\<lambda>_.
                           ret (ctx, False))))
                       | Inr tok \<Rightarrow>
                           (let client = Client conf (Some tok) in
                            and_then
                              (if RequireDomain h = [] then ret True
                               else domainAllowed W client (RequireDomain h))
                              (\<lambda>allowed.
                                 if allowed then
                                   and_then (sessionConfig W h) (\<lambda>cfg2.
                                   and_then (emit (SetCookie cfg2
                                       \<lparr>OAuthToken = Some tok, NextURL = [], State = []\<rparr>)) (\<lambda>_.
                                   and_then (emit (HttpRedirect (NextURL user) 307)) (\<lambda>_.
                                   ret (ctx, False))))
                                 else
                                   and_then (deleteCookie W h) (\<lambda>_.
                                   and_then (emit (HttpError ''access forbidden'' 401)) (\<lambda>_.
                                   ret (ctx, False))))))
                   else
                     and_then (deleteCookie W h) (\<lambda>_.
                     and_then (emit (LogError ''Mismatched state'')) (\<lambda>_.
                     and_then (emit (HttpError ''access forbidden'' 401)) (\<lambda>_.
                     ret (ctx, False)))))
                else
                  (let u = (req_URL r)\<lparr>url_Scheme := ''https'', url_Host := req_Host r\<rparr>;
                       state = newState W
                   in and_then (sessionConfig W h) (\<lambda>cfg3.
                      and_then (emit (SetCookie cfg3
                          \<lparr>OAuthToken = None, NextURL = url_String W u, State = state\<rparr>)) (\<lambda>_.
                      and_then (emit (HttpRedirect (oauth2_AuthCodeURL W conf state) 307)) (\<lambda>_.
                      ret (ctx, False)))))))"

text \<open>
  \<^verbatim>\<open>ServeHTTPContext\<close> (lines 88-100) and \<^verbatim>\<open>ServeHTTP\<close> (lines 84-86);
  \<open>the_handler\<close> is the choice of lines 89-92.
\<close>

definition the_handler :: "OAuthHandler \<Rightarrow> Handler" where
  "the_handler h = (case Handler h of None \<Rightarrow> DefaultServeMux | Some x \<Rightarrow> x)"

definition ServeHTTPContext :: "world \<Rightarrow> OAuthHandler \<Rightarrow> Context \<Rightarrow> Request \<Rightarrow> unit proc" where
  "ServeHTTPContext W h ctx r =
     (let handler = the_handler h in
      and_then (loginOk W h ctx r) (\<lambda>(ctx', ok).
        if ok then
          (case handler of
             ContextHandler n \<Rightarrow> emit (CallServeHTTPContext handler ctx')
           | _ \<Rightarrow> emit (CallServeHTTP handler))
        else ret ()))"

definition ServeHTTP :: "world \<Rightarrow> OAuthHandler \<Rightarrow> Request \<Rightarrow> unit proc" where
  "ServeHTTP W h r = ServeHTTPContext W h None r"

section \<open>Reading a trace\<close>

text \<open>
  The status codes the gate itself writes, the calls of the protected handler, and the
  calls of the two outbound network operations, picked out of a list of events.
\<close>

fun response_code :: "event \<Rightarrow> int option" where
  "response_code (HttpError m c) = Some c"
| "response_code (HttpRedirect u c) = Some c"
| "response_code e = None"

fun is_handler_call :: "event \<Rightarrow> bool" where
  "is_handler_call (CallServeHTTP x) = True"
| "is_handler_call (CallServeHTTPContext x c) = True"
| "is_handler_call e = False"

fun is_ProfileGet :: "event \<Rightarrow> bool" where
  "is_ProfileGet (ProfileGet c u) = True"
| "is_ProfileGet e = False"

definition responses :: "event list \<Rightarrow> int list" where
  "responses es = List.map_filter response_code es"

definition handler_calls :: "event list \<Rightarrow> event list" where
  "handler_calls es = filter is_handler_call es"

definition profile_gets :: "event list \<Rightarrow> event list" where
  "profile_gets es = filter is_ProfileGet es"

text \<open>
  One outbound decision: the handler is called once and the gate writes no response, or
  the handler is not called and the gate writes one response, a 307, a 401 or a 500.
\<close>

definition one_decision :: "event list \<Rightarrow> bool" where
  "one_decision es =
     (if handler_calls es = []
      then responses es = [307] \<or> responses es = [401] \<or> responses es = [500]
      else length (handler_calls es) = 1 \<and> responses es = [])"

section \<open>Concrete collaborators and requests\<close>

text \<open>
  A small world to run the gate in. The cookie codec is a stub with three cookie values:
  \<open>''T''\<close> decodes to a session with a token, \<open>''P''\<close> to a pending flow, anything else
  fails to decode; a request without the cookie gets \<^verbatim>\<open>http.ErrNoCookie\<close> and leaves the
  target untouched. The key is the one of the comment at line 211.
\<close>

definition key64 :: string where
  "key64 = ''faba0c08be7474a785b272c4f4154c998c0943b51e662637be11b1a0ecda43b3''"

definition key32 :: "byte list" where
  "key32 = [0xfa, 0xba, 0x0c, 0x08, 0xbe, 0x74, 0x74, 0xa7, 0x85, 0xb2, 0x72, 0xc4, 0xf4, 0x15,
            0x4c, 0x99, 0x8c, 0x09, 0x43, 0xb5, 0x1e, 0x66, 0x26, 0x37, 0xbe, 0x11, 0xb1, 0xa0,
            0xec, 0xda, 0x43, 0xb3]"

definition tok0 :: Token where
  "tok0 = \<lparr>AccessToken = ''ya29.stored'', TokenType = ''Bearer'', RefreshToken = [], Expiry = 0\<rparr>"

definition tok1 :: Token where
  "tok1 = \<lparr>AccessToken = ''ya29.fresh'', TokenType = ''Bearer'', RefreshToken = [], Expiry = 3600\<rparr>"

definition sess_T :: sess where
  "sess_T = \<lparr>OAuthToken = Some tok0, NextURL = [], State = []\<rparr>"

definition sess_P :: sess where
  "sess_P = \<lparr>OAuthToken = None, NextURL = ''https://app.example.com/dashboard'',
              State = ''0102030405060708090a''\<rparr>"

definition stub_session_Get :: "Request \<Rightarrow> sess \<Rightarrow> session_Config \<Rightarrow> sess \<times> get_error option" where
  "stub_session_Get r v c =
     (case map_of (req_Cookies r) (cfg_Name c) of
        None \<Rightarrow> (v, Some ErrNoCookie)
      | Some x \<Rightarrow>
          if x = ''T'' then (sess_T, None)
          else if x = ''P'' then (sess_P, None)
          else (v, Some (DecodeError ''sealbox: invalid message'')))"

definition google_Endpoint :: oauth2_Endpoint where
  "google_Endpoint = \<lparr>AuthURL = ''https://accounts.google.com/o/oauth2/auth'',
                       TokenURL = ''https://accounts.google.com/o/oauth2/token''\<rparr>"

definition profile_of :: "string \<Rightarrow> googleProfile" where
  "profile_of e = \<lparr>ID = ''1'', DisplayName = ''A'', FamilyName = ''B'', GivenName = ''C'', Email = e\<rparr>"

definition W0 :: world where
  "W0 = \<lparr>env_KEY = key64,
         Endpoint = google_Endpoint,
         session_Get = stub_session_Get,
         oauth2_Exchange = (\<lambda>conf code. if code = ''good'' then Inr tok1 else Inl ''invalid_grant''),
         oauth2_AuthCodeURL = (\<lambda>conf st. AuthURL (conf_Endpoint conf) @ ''?state='' @ st),
         client_Get = (\<lambda>c u. (Some \<lparr>StatusCode = 200, Body = ''alice@example.com''\<rparr>, None)),
         json_Decode = (\<lambda>body. Inr (profile_of body)),
         url_String = (\<lambda>u. url_Scheme u @ ''://'' @ url_Host u @ url_Path u),
         rand_Read = [1, 2, 3, 4, 5, 6, 7, 8, 9, 10]\<rparr>"

definition h0 :: OAuthHandler where
  "h0 = \<lparr>RequireDomain = [], Name = [], Path = [], Domain = [], MaxAge = 0, Key = key64,
         ClientID = ''id'', ClientSecret = ''secret'', Scopes = None,
         Handler = Some (ContextHandler ''app'')\<rparr>"

definition cfg0 :: session_Config where
  "cfg0 = \<lparr>cfg_Name = ''googlegoauth'', cfg_Path = [], cfg_Domain = [], cfg_MaxAge = 0,
           cfg_Keys = [key32]\<rparr>"

definition conf0 :: oauth2_Config where
  "conf0 = \<lparr>conf_ClientID = ''id'', conf_ClientSecret = ''secret'',
            conf_RedirectURL = ''https://app.example.com/oauth2callback'',
            conf_Scopes = Some defaultScopes, conf_Endpoint = google_Endpoint\<rparr>"

definition req :: "string \<Rightarrow> (string \<times> string list) list \<Rightarrow> (string \<times> string) list \<Rightarrow> Request" where
  "req p form cookies =
     \<lparr>req_Host = ''app.example.com'',
      req_URL = \<lparr>url_Scheme = [], url_Host = [], url_Path = p, url_RawQuery = []\<rparr>,
      req_Form = map_of form, req_Cookies = cookies\<rparr>"

section \<open>Facts about the functions\<close>

subsection \<open>The session configuration\<close>

lemma Key_not_read: "keys W s = keys W s'"
  by (simp add: keys_def)

lemma sessionConfig_cases:
  "(\<exists>cfg. sessionConfig W h = ([], Return cfg)) \<or>
   (\<exists>m. sessionConfig W h = ([LogError m], Exit 1))"
  by (simp add: sessionConfig_def keys_def ret_def emit_def os_Exit_def Let_def
      split: option.split)

lemma sessionConfig_Return:
  "snd (sessionConfig W h) = Return cfg \<Longrightarrow> sessionConfig W h = ([], Return cfg)"
  using sessionConfig_cases [of W h] by auto

lemma sessionConfig_bad_length:
  "hex_DecodeString (env_KEY W) = Some k \<Longrightarrow> length k \<noteq> 32 \<Longrightarrow>
   sessionConfig W h = ([LogError ''Invalid Key Length''], Exit 1)"
  by (simp add: sessionConfig_def keys_def emit_def os_Exit_def)

lemma deleteCookie_Return:
  "sessionConfig W h = ([], Return cfg) \<Longrightarrow>
   deleteCookie W h = ([SetCookie (cfg\<lparr>cfg_MaxAge := - 1000000000\<rparr>) sess_zero], Return ())"
  by (simp add: deleteCookie_def emit_def)

lemma gate_stops_with_sessionConfig:
  "sessionConfig W h = (es, Exit n) \<Longrightarrow> ServeHTTPContext W h ctx r = (es, Exit n)"
  by (simp add: ServeHTTPContext_def loginOk_def)

lemma Key_field_irrelevant:
  "ServeHTTPContext W (h\<lparr>Key := s\<rparr>) ctx r = ServeHTTPContext W h ctx r"
proof -
  have sc: "sessionConfig W (h\<lparr>Key := s\<rparr>) = sessionConfig W h"
    by (simp add: sessionConfig_def Key_not_read [of W s "Key h"])
  have oc: "oauthConf W (h\<lparr>Key := s\<rparr>) r = oauthConf W h r"
    by (simp add: oauthConf_def)
  have dc: "deleteCookie W (h\<lparr>Key := s\<rparr>) = deleteCookie W h"
    by (simp add: deleteCookie_def sc)
  have "loginOk W (h\<lparr>Key := s\<rparr>) ctx r = loginOk W h ctx r"
    unfolding loginOk_def sc oc dc
    by (simp cong: if_cong option.case_cong prod.case_cong sum.case_cong get_error.case_cong)
  then show ?thesis
    by (simp add: ServeHTTPContext_def the_handler_def)
qed

subsection \<open>The domain verifier\<close>

lemma Split_prefix: "c \<notin> set a \<Longrightarrow> Split (a @ c # b) c = a # Split b c"
  by (induction a) auto

lemma domainAllowed_nil_response:
  "client_Get W c profileURL = (None, Some e) \<Longrightarrow>
   domainAllowed W c d = ([ProfileGet c profileURL], Panic ''nil pointer dereference'')"
  by (simp add: domainAllowed_def emit_def panic_def)

lemma domainAllowed_True_events:
  "domainAllowed W c d = (es, Return True) \<Longrightarrow> es = [ProfileGet c profileURL]"
  by (auto simp add: domainAllowed_def emit_def ret_def panic_def Let_def
      split: prod.splits option.splits sum.splits if_splits)

lemma domainAllowed_results:
  "(\<exists>es b. domainAllowed W c d = (es, Return b)) \<or> (\<exists>es m. domainAllowed W c d = (es, Panic m))"
  by (auto simp add: domainAllowed_def emit_def ret_def panic_def Let_def
      split: prod.splits option.splits sum.splits)

lemma domainAllowed_quiet:
  "responses (fst (domainAllowed W c d)) = [] \<and> handler_calls (fst (domainAllowed W c d)) = []"
  by (auto simp add: domainAllowed_def emit_def ret_def panic_def Let_def responses_def
      handler_calls_def split: prod.splits option.splits sum.splits)

subsection \<open>The CSRF state\<close>

lemma hex_EncodeToString_length: "length (hex_EncodeToString bs) = 2 * length bs"
  by (induction bs) (simp_all add: hex_EncodeToString_def)

lemma newState_length: "length (newState W) = 20"
  by (simp add: newState_def Let_def hex_EncodeToString_length)

subsection \<open>The branches of \<open>loginOk\<close>\<close>

lemma loginOk_decode_error:
  assumes "sessionConfig W h = ([], Return cfg)"
    and "session_Get W r sess_zero cfg = (user, Some (DecodeError e))"
  shows "loginOk W h ctx r =
    ([SetCookie (cfg\<lparr>cfg_MaxAge := - 1000000000\<rparr>) sess_zero, HttpError ''internal error'' 500],
     Return (ctx, False))"
  using assms by (simp add: loginOk_def deleteCookie_Return emit_def ret_def)

lemma loginOk_token:
  assumes "sessionConfig W h = ([], Return cfg)"
    and "session_Get W r sess_zero cfg = (user, err)"
    and "err = None \<or> err = Some ErrNoCookie"
    and "OAuthToken user = Some tok"
  shows "loginOk W h ctx r =
    ([SetCookie cfg user], Return (Some (Session (Client (oauthConf W h r) (Some tok))), True))"
  using assms by (auto simp add: loginOk_def emit_def ret_def)

lemma loginOk_start_flow:
  assumes "sessionConfig W h = ([], Return cfg)"
    and "session_Get W r sess_zero cfg = (user, err)"
    and "err = None \<or> err = Some ErrNoCookie"
    and "OAuthToken user = None"
    and "url_Path (req_URL r) \<noteq> callbackPath"
  shows "loginOk W h ctx r =
    ([SetCookie cfg \<lparr>OAuthToken = None,
        NextURL = url_String W ((req_URL r)\<lparr>url_Scheme := ''https'', url_Host := req_Host r\<rparr>),
        State = newState W\<rparr>,
      HttpRedirect (oauth2_AuthCodeURL W (oauthConf W h r) (newState W)) 307],
     Return (ctx, False))"
  using assms by (auto simp add: loginOk_def emit_def ret_def Let_def)

lemma loginOk_state_mismatch:
  assumes "sessionConfig W h = ([], Return cfg)"
    and "session_Get W r sess_zero cfg = (user, err)"
    and "err = None \<or> err = Some ErrNoCookie"
    and "OAuthToken user = None"
    and "url_Path (req_URL r) = callbackPath"
    and "FormValue r ''state'' \<noteq> State user"
  shows "loginOk W h ctx r =
    ([SetCookie (cfg\<lparr>cfg_MaxAge := - 1000000000\<rparr>) sess_zero, LogError ''Mismatched state'',
      HttpError ''access forbidden'' 401],
     Return (ctx, False))"
  using assms by (auto simp add: loginOk_def deleteCookie_Return emit_def ret_def Let_def)

lemma loginOk_exchange_error:
  assumes "sessionConfig W h = ([], Return cfg)"
    and "session_Get W r sess_zero cfg = (user, err)"
    and "err = None \<or> err = Some ErrNoCookie"
    and "OAuthToken user = None"
    and "url_Path (req_URL r) = callbackPath"
    and "FormValue r ''state'' = State user"
    and "oauth2_Exchange W (oauthConf W h r) (FormValue r ''code'') = Inl x"
  shows "loginOk W h ctx r =
    ([ExchangeCall (oauthConf W h r) (FormValue r ''code''),
      SetCookie (cfg\<lparr>cfg_MaxAge := - 1000000000\<rparr>) sess_zero, LogError ''Invalid credentials'',
      HttpError ''access forbidden'' 401],
     Return (ctx, False))"
  using assms by (auto simp add: loginOk_def deleteCookie_Return emit_def ret_def Let_def)

lemma loginOk_callback_granted:
  assumes "sessionConfig W h = ([], Return cfg)"
    and "session_Get W r sess_zero cfg = (user, err)"
    and "err = None \<or> err = Some ErrNoCookie"
    and "OAuthToken user = None"
    and "url_Path (req_URL r) = callbackPath"
    and "FormValue r ''state'' = State user"
    and "oauth2_Exchange W (oauthConf W h r) (FormValue r ''code'') = Inr tok"
    and "(if RequireDomain h = [] then ret True
          else domainAllowed W (Client (oauthConf W h r) (Some tok)) (RequireDomain h))
         = (es, Return True)"
  shows "loginOk W h ctx r =
    (ExchangeCall (oauthConf W h r) (FormValue r ''code'') # es @
       [SetCookie cfg \<lparr>OAuthToken = Some tok, NextURL = [], State = []\<rparr>,
        HttpRedirect (NextURL user) 307],
     Return (ctx, False))"
  using assms by (auto simp add: loginOk_def emit_def ret_def Let_def)

lemma loginOk_callback_denied:
  assumes "sessionConfig W h = ([], Return cfg)"
    and "session_Get W r sess_zero cfg = (user, err)"
    and "err = None \<or> err = Some ErrNoCookie"
    and "OAuthToken user = None"
    and "url_Path (req_URL r) = callbackPath"
    and "FormValue r ''state'' = State user"
    and "oauth2_Exchange W (oauthConf W h r) (FormValue r ''code'') = Inr tok"
    and "RequireDomain h \<noteq> []"
    and "domainAllowed W (Client (oauthConf W h r) (Some tok)) (RequireDomain h)
         = (es, Return False)"
  shows "loginOk W h ctx r =
    (ExchangeCall (oauthConf W h r) (FormValue r ''code'') # es @
       [SetCookie (cfg\<lparr>cfg_MaxAge := - 1000000000\<rparr>) sess_zero,
        HttpError ''access forbidden'' 401],
     Return (ctx, False))"
  using assms by (auto simp add: loginOk_def deleteCookie_Return emit_def ret_def Let_def)

lemma loginOk_callback_panic:
  assumes "sessionConfig W h = ([], Return cfg)"
    and "session_Get W r sess_zero cfg = (user, err)"
    and "err = None \<or> err = Some ErrNoCookie"
    and "OAuthToken user = None"
    and "url_Path (req_URL r) = callbackPath"
    and "FormValue r ''state'' = State user"
    and "oauth2_Exchange W (oauthConf W h r) (FormValue r ''code'') = Inr tok"
    and "RequireDomain h \<noteq> []"
    and "domainAllowed W (Client (oauthConf W h r) (Some tok)) (RequireDomain h)
         = (es, Panic m)"
  shows "loginOk W h ctx r =
    (ExchangeCall (oauthConf W h r) (FormValue r ''code'') # es, Panic m)"
  using assms by (auto simp add: loginOk_def emit_def ret_def Let_def)

lemma ServeHTTPContext_not_ok:
  "loginOk W h ctx r = (es, Return (ctx', False)) \<Longrightarrow> ServeHTTPContext W h ctx r = (es, Return ())"
  by (simp add: ServeHTTPContext_def ret_def)

lemma ServeHTTPContext_ok:
  "loginOk W h ctx r = (es, Return (ctx', True)) \<Longrightarrow>
   ServeHTTPContext W h ctx r =
     (es @ [case the_handler h of
              ContextHandler n \<Rightarrow> CallServeHTTPContext (the_handler h) ctx'
            | x \<Rightarrow> CallServeHTTP x],
      Return ())"
  by (simp add: ServeHTTPContext_def emit_def split: Handler.split)

lemma ServeHTTPContext_panic:
  "loginOk W h ctx r = (es, Panic m) \<Longrightarrow> ServeHTTPContext W h ctx r = (es, Panic m)"
  by (simp add: ServeHTTPContext_def)

subsection \<open>Evaluating the concrete world\<close>

lemmas concrete_defs = sessionConfig_def keys_def ret_def emit_def os_Exit_def panic_def
  W0_def h0_def cfg0_def conf0_def key64_def key32_def fromHexChar_def req_def
  stub_session_Get_def sess_zero_def sess_T_def sess_P_def oauthConf_def FormValue_def
  callbackPath_def google_Endpoint_def tok0_def tok1_def newState_def hex_EncodeToString_def
  hextable_def defaultScopes_def profileURL_def profile_of_def the_handler_def

lemma sessionConfig_concrete: "sessionConfig W0 h0 = ([], Return cfg0)"
  by (simp add: concrete_defs)

lemma oauthConf_concrete: "oauthConf W0 h0 (req p form cookies) = conf0"
  by (simp add: concrete_defs)

section \<open>The claims\<close>

text \<open>
  In the statements below, \<open>snd (sessionConfig W h) = Return cfg\<close> says that the key in
  the environment decodes to 32 bytes, so that the gate gets as far as reading the cookie.
\<close>

subsection \<open>C1\<close>

text \<open>
  Claim C1: a callback request that arrives with no pending session is treated as a state
  mismatch (cookie deleted, 401, no token exchange), also when the request carries no
  \<^verbatim>\<open>state\<close> parameter.

  The code compares \<^verbatim>\<open>r.FormValue("state")\<close> with \<^verbatim>\<open>user.State\<close> (line 134) and nothing
  else. Without a cookie the session is the zero value, whose state is the empty string,
  and a request without the parameter has the empty string as its form value: the two are
  equal, the exchange is attempted, and when it succeeds the gate issues a token cookie
  and redirects to the empty \<^verbatim>\<open>NextURL\<close>.
\<close>

theorem C1_callback_without_state_is_exchanged:
  assumes "snd (sessionConfig W h) = Return cfg"
    and "session_Get W r sess_zero cfg = (sess_zero, Some ErrNoCookie)"
    and "url_Path (req_URL r) = callbackPath"
    and "req_Form r ''state'' = None"
    and "oauth2_Exchange W (oauthConf W h r) (FormValue r ''code'') = Inr tok"
    and "RequireDomain h = []"
  shows "ServeHTTPContext W h ctx r =
    ([ExchangeCall (oauthConf W h r) (FormValue r ''code''),
      SetCookie cfg \<lparr>OAuthToken = Some tok, NextURL = [], State = []\<rparr>,
      HttpRedirect [] 307], Return ())"
proof -
  have st: "FormValue r ''state'' = State sess_zero"
    using assms(4) by (simp add: FormValue_def sess_zero_def)
  have "loginOk W h ctx r =
    (ExchangeCall (oauthConf W h r) (FormValue r ''code'') # [] @
       [SetCookie cfg \<lparr>OAuthToken = Some tok, NextURL = [], State = []\<rparr>,
        HttpRedirect (NextURL sess_zero) 307], Return (ctx, False))"
    by (rule loginOk_callback_granted
          [OF sessionConfig_Return [OF assms(1)] assms(2) _ _ assms(3) st assms(5)])
       (simp_all add: sess_zero_def assms(6) ret_def)
  then have "loginOk W h ctx r =
    ([ExchangeCall (oauthConf W h r) (FormValue r ''code''),
      SetCookie cfg \<lparr>OAuthToken = Some tok, NextURL = [], State = []\<rparr>,
      HttpRedirect [] 307], Return (ctx, False))"
    by (simp add: sess_zero_def)
  then show ?thesis
    by (rule ServeHTTPContext_not_ok)
qed

theorem C1_callback_without_state_witness:
  "session_Get W0 (req ''/oauth2callback'' [(''code'', [''good''])] []) sess_zero cfg0
     = (sess_zero, Some ErrNoCookie)
   \<and> req_Form (req ''/oauth2callback'' [(''code'', [''good''])] []) ''state'' = None
   \<and> ServeHTTPContext W0 h0 None (req ''/oauth2callback'' [(''code'', [''good''])] []) =
       ([ExchangeCall conf0 ''good'',
         SetCookie cfg0 \<lparr>OAuthToken = Some tok1, NextURL = [], State = []\<rparr>,
         HttpRedirect [] 307], Return ())"
proof -
  let ?r = "req ''/oauth2callback'' [(''code'', [''good''])] []"
  have a: "snd (sessionConfig W0 h0) = Return cfg0"
    by (simp add: sessionConfig_concrete)
  have b: "session_Get W0 ?r sess_zero cfg0 = (sess_zero, Some ErrNoCookie)"
    by (simp add: concrete_defs)
  have c: "url_Path (req_URL ?r) = callbackPath"
    by (simp add: concrete_defs)
  have d: "req_Form ?r ''state'' = None"
    by (simp add: concrete_defs)
  have f: "FormValue ?r ''code'' = ''good''"
    by (simp add: concrete_defs)
  have g: "oauth2_Exchange W0 (oauthConf W0 h0 ?r) (FormValue ?r ''code'') = Inr tok1"
    unfolding oauthConf_concrete f by (simp add: W0_def)
  have i: "RequireDomain h0 = []"
    by (simp add: h0_def)
  show ?thesis
    using C1_callback_without_state_is_exchanged [OF a b c d g i, of None] b d
    by (simp only: oauthConf_concrete f simp_thms)
qed

subsection \<open>C2\<close>

text \<open>
  Claim C2: the key of the session codec is derived from the configured \<^verbatim>\<open>Key\<close> field, a
  missing or wrong-length key is fatal at start-up and not while a request is handled, and
  the per-request path reads no environment state.

  \<^verbatim>\<open>keys(s)\<close> never reads \<open>s\<close>: it decodes \<^verbatim>\<open>os.Getenv("KEY")\<close> (line 212), and it is
  called through \<^verbatim>\<open>sessionConfig\<close> from the first statement of \<^verbatim>\<open>loginOk\<close>. So whatever
  the \<^verbatim>\<open>Key\<close> field holds, a key of the wrong length in the environment ends the process
  while the request is being handled, and the \<^verbatim>\<open>Key\<close> field has no influence on what the
  gate does.
\<close>

theorem C2_key_comes_from_environment_per_request:
  assumes "hex_DecodeString (env_KEY W) = Some k" and "length k \<noteq> 32"
  shows "ServeHTTPContext W h ctx r = ([LogError ''Invalid Key Length''], Exit 1)
       \<and> ServeHTTPContext W (h\<lparr>Key := s\<rparr>) ctx r = ServeHTTPContext W h ctx r"
  using gate_stops_with_sessionConfig [OF sessionConfig_bad_length [OF assms]]
    Key_field_irrelevant
  by simp

theorem C2_key_comes_from_environment_witness:
  "hex_DecodeString (Key h0) = Some key32 \<and> length key32 = 32
   \<and> hex_DecodeString (env_KEY (W0\<lparr>env_KEY := []\<rparr>)) = Some []
   \<and> ServeHTTPContext (W0\<lparr>env_KEY := []\<rparr>) h0 None (req ''/dashboard'' [] [])
       = ([LogError ''Invalid Key Length''], Exit 1)"
proof -
  have a: "hex_DecodeString (env_KEY (W0\<lparr>env_KEY := []\<rparr>)) = Some []"
    by simp
  have b: "length ([] :: byte list) \<noteq> 32"
    by simp
  have c: "hex_DecodeString (Key h0) = Some key32"
    by (simp add: concrete_defs)
  have d: "length key32 = 32"
    by (simp add: key32_def)
  show ?thesis
    using C2_key_comes_from_environment_per_request
            [OF a b, of h0 None "req ''/dashboard'' [] []" "[]"] a c d
    by simp
qed

subsection \<open>C3\<close>

text \<open>
  Claim C3: when the profile GET returns a network error, \<^verbatim>\<open>domainAllowed\<close> returns false
  without crashing; the error branch is safe when there is no response object.

  On a network error \<^verbatim>\<open>client.Get\<close> returns a nil response. The condition of line 182
  does not touch it (the left operand of \<^verbatim>\<open>||\<close> is already true), but line 183 reads
  \<^verbatim>\<open>resp.StatusCode\<close> for the log fields: a nil pointer dereference. The function panics
  instead of returning false.
\<close>

theorem C3_network_error_panics:
  assumes "client_Get W client profileURL = (None, Some e)"
  shows "domainAllowed W client domain =
    ([ProfileGet client profileURL], Panic ''nil pointer dereference'')"
  using assms by (rule domainAllowed_nil_response)

theorem C3_network_error_witness:
  "client_Get (W0\<lparr>client_Get := (\<lambda>c u. (None, Some ''dial tcp: i/o timeout''))\<rparr>)
      (Client conf0 (Some tok1)) profileURL = (None, Some ''dial tcp: i/o timeout'')
   \<and> domainAllowed (W0\<lparr>client_Get := (\<lambda>c u. (None, Some ''dial tcp: i/o timeout''))\<rparr>)
      (Client conf0 (Some tok1)) ''example.com'' =
       ([ProfileGet (Client conf0 (Some tok1)) profileURL], Panic ''nil pointer dereference'')"
proof -
  let ?W = "W0\<lparr>client_Get := (\<lambda>c u. (None, Some ''dial tcp: i/o timeout''))\<rparr>"
  have a: "client_Get ?W (Client conf0 (Some tok1)) profileURL
             = (None, Some ''dial tcp: i/o timeout'')"
    by simp
  show ?thesis
    using C3_network_error_panics [OF a, of "''example.com''"] a by simp
qed

subsection \<open>C4\<close>

text \<open>
  Claim C4: \<^verbatim>\<open>domainAllowed\<close> returns true only for an email with exactly one \<^verbatim>\<open>@\<close> whose
  part after the \<^verbatim>\<open>@\<close> is the required domain; an email with no \<^verbatim>\<open>@\<close>, with more than one,
  or with another suffix is denied.

  The code splits the email at every \<^verbatim>\<open>@\<close> and checks \<^verbatim>\<open>len(user) < 2 || user[1] != domain\<close>
  (line 200): the number of pieces is only bounded from below, and the second piece is
  compared, not the last. So an email \<open>name@domain@rest\<close> is accepted for \<open>domain\<close>,
  whatever \<open>rest\<close> is.
\<close>

theorem C4_second_at_sign_accepted:
  assumes "client_Get W c profileURL = (Some rp, None)"
    and "StatusCode rp = 200"
    and "json_Decode W (Body rp) = Inr gp"
    and "Email gp = name @ ''@'' @ d @ ''@'' @ rest"
    and "CHR ''@'' \<notin> set name" and "CHR ''@'' \<notin> set d"
  shows "domainAllowed W c d = ([ProfileGet c profileURL], Return True)"
proof -
  have "Split (Email gp) CHR ''@'' = name # d # Split rest CHR ''@''"
    using assms(4-6) by (simp add: Split_prefix)
  then show ?thesis
    using assms(1-3) by (simp add: domainAllowed_def emit_def ret_def Let_def)
qed

theorem C4_second_at_sign_witness:
  "domainAllowed
     (W0\<lparr>client_Get := (\<lambda>c u. (Some \<lparr>StatusCode = 200, Body = ''alice@example.com@evil.org''\<rparr>, None))\<rparr>)
     (Client conf0 (Some tok1)) ''example.com''
   = ([ProfileGet (Client conf0 (Some tok1)) profileURL], Return True)"
proof -
  let ?rp = "\<lparr>StatusCode = 200, Body = ''alice@example.com@evil.org''\<rparr>"
  let ?W = "W0\<lparr>client_Get := (\<lambda>c u. (Some ?rp, None))\<rparr>"
  have a: "client_Get ?W (Client conf0 (Some tok1)) profileURL = (Some ?rp, None)"
    by simp
  have b: "StatusCode ?rp = 200"
    by simp
  have c: "json_Decode ?W (Body ?rp) = Inr (profile_of ''alice@example.com@evil.org'')"
    by (simp add: W0_def)
  have d: "Email (profile_of ''alice@example.com@evil.org'')
             = ''alice'' @ ''@'' @ ''example.com'' @ ''@'' @ ''evil.org''"
    by (simp add: profile_of_def)
  have e: "CHR ''@'' \<notin> set ''alice''"
    by simp
  have f: "CHR ''@'' \<notin> set ''example.com''"
    by simp
  show ?thesis
    using C4_second_at_sign_accepted [OF a b c d e f] by simp
qed

subsection \<open>C5\<close>

text \<open>
  Claim C5: a request whose cookie is malformed or tampered with is treated as anonymous
  and sent into the login redirect; such a cookie never grants access, never yields an
  authenticated record and never crashes the gate.

  The code separates the failures of \<^verbatim>\<open>session.Get\<close> on purpose (line 108): every
  error but \<^verbatim>\<open>http.ErrNoCookie\<close> ends the request. A request with the malformed cookie
  \<open>garbage\<close> is answered with 500, not with a redirect.
\<close>

theorem C5_malformed_cookie_counterexample:
  "session_Get W0 (req ''/dashboard'' [] [(''googlegoauth'', ''garbage'')]) sess_zero cfg0
     = (sess_zero, Some (DecodeError ''sealbox: invalid message''))
   \<and> ServeHTTPContext W0 h0 None (req ''/dashboard'' [] [(''googlegoauth'', ''garbage'')])
     = ([SetCookie (cfg0\<lparr>cfg_MaxAge := - 1000000000\<rparr>) sess_zero,
         HttpError ''internal error'' 500], Return ())
   \<and> responses (fst (ServeHTTPContext W0 h0 None
         (req ''/dashboard'' [] [(''googlegoauth'', ''garbage'')]))) = [500]"
proof -
  let ?r = "req ''/dashboard'' [] [(''googlegoauth'', ''garbage'')]"
  have b: "session_Get W0 ?r sess_zero cfg0
             = (sess_zero, Some (DecodeError ''sealbox: invalid message''))"
    by (simp add: concrete_defs)
  have "ServeHTTPContext W0 h0 None ?r
     = ([SetCookie (cfg0\<lparr>cfg_MaxAge := - 1000000000\<rparr>) sess_zero,
         HttpError ''internal error'' 500], Return ())"
    by (rule ServeHTTPContext_not_ok, rule loginOk_decode_error [OF sessionConfig_concrete b])
  with b show ?thesis
    by (simp add: responses_def)
qed

text \<open>
  Claim C5, amended: a request whose cookie fails to decode (any error of \<^verbatim>\<open>session.Get\<close>
  other than \<^verbatim>\<open>http.ErrNoCookie\<close>) gets its cookie deleted and the response 500
  \<open>internal error\<close>; the gate returns normally, calls neither the protected handler nor
  the provider, and whatever the failed decoding left in the session record is not used:
  \<^verbatim>\<open>loginOk\<close> hands back the context it was given, with \<^verbatim>\<open>false\<close>.
\<close>

theorem C5_malformed_cookie_is_500:
  assumes "snd (sessionConfig W h) = Return cfg"
    and "session_Get W r sess_zero cfg = (user, Some (DecodeError e))"
  shows "ServeHTTPContext W h ctx r =
           ([SetCookie (cfg\<lparr>cfg_MaxAge := - 1000000000\<rparr>) sess_zero,
             HttpError ''internal error'' 500], Return ())
       \<and> loginOk W h ctx r =
           ([SetCookie (cfg\<lparr>cfg_MaxAge := - 1000000000\<rparr>) sess_zero,
             HttpError ''internal error'' 500], Return (ctx, False))
       \<and> responses (fst (ServeHTTPContext W h ctx r)) = [500]
       \<and> handler_calls (fst (ServeHTTPContext W h ctx r)) = []
       \<and> profile_gets (fst (ServeHTTPContext W h ctx r)) = []"
proof -
  have l: "loginOk W h ctx r =
           ([SetCookie (cfg\<lparr>cfg_MaxAge := - 1000000000\<rparr>) sess_zero,
             HttpError ''internal error'' 500], Return (ctx, False))"
    by (rule loginOk_decode_error [OF sessionConfig_Return [OF assms(1)] assms(2)])
  have s: "ServeHTTPContext W h ctx r =
           ([SetCookie (cfg\<lparr>cfg_MaxAge := - 1000000000\<rparr>) sess_zero,
             HttpError ''internal error'' 500], Return ())"
    by (rule ServeHTTPContext_not_ok [OF l])
  have "responses (fst (ServeHTTPContext W h ctx r)) = [500]"
    and "handler_calls (fst (ServeHTTPContext W h ctx r)) = []"
    and "profile_gets (fst (ServeHTTPContext W h ctx r)) = []"
    unfolding s by (simp_all add: responses_def handler_calls_def profile_gets_def)
  with l s show ?thesis
    by simp
qed

theorem C5_malformed_cookie_witness:
  "snd (sessionConfig W0 (h0\<lparr>Handler := None\<rparr>)) = Return cfg0
   \<and> session_Get W0 (req ''/'' [] [(''googlegoauth'', ''Tx'')]) sess_zero cfg0
       = (sess_zero, Some (DecodeError ''sealbox: invalid message''))
   \<and> ServeHTTPContext W0 (h0\<lparr>Handler := None\<rparr>) None (req ''/'' [] [(''googlegoauth'', ''Tx'')])
       = ([SetCookie (cfg0\<lparr>cfg_MaxAge := - 1000000000\<rparr>) sess_zero,
           HttpError ''internal error'' 500], Return ())"
proof -
  let ?r = "req ''/'' [] [(''googlegoauth'', ''Tx'')]"
  have a: "snd (sessionConfig W0 (h0\<lparr>Handler := None\<rparr>)) = Return cfg0"
    by (simp add: concrete_defs)
  have b: "session_Get W0 ?r sess_zero cfg0
             = (sess_zero, Some (DecodeError ''sealbox: invalid message''))"
    by (simp add: concrete_defs)
  show ?thesis
    using C5_malformed_cookie_is_500 [OF a b, of None] a b by simp
qed

subsection \<open>C6\<close>

text \<open>
  Claim C6: for every request whose session decodes to a record with a token, the gate
  writes the same record back (refreshing the cookie), attaches a client built from the
  stored token to the context, and calls the protected handler exactly once, without a
  redirect; the same on every repetition of the request.

  The statement holds for every such request, so for each repetition. The context with
  the client is what \<^verbatim>\<open>loginOk\<close> returns; a handler that implements \<^verbatim>\<open>ContextHandler\<close>
  receives it, a plain one is called through \<^verbatim>\<open>ServeHTTP\<close>.
\<close>

theorem C6_authenticated_request_is_forwarded:
  assumes "snd (sessionConfig W h) = Return cfg"
    and "session_Get W r sess_zero cfg = (user, None)"
    and "OAuthToken user = Some tok"
  shows "loginOk W h ctx r =
           ([SetCookie cfg user],
            Return (Some (Session (Client (oauthConf W h r) (Some tok))), True))
       \<and> ServeHTTPContext W h ctx r =
           ([SetCookie cfg user,
             case the_handler h of
               ContextHandler n \<Rightarrow>
                 CallServeHTTPContext (the_handler h)
                   (Some (Session (Client (oauthConf W h r) (Some tok))))
             | x \<Rightarrow> CallServeHTTP x],
            Return ())
       \<and> length (handler_calls (fst (ServeHTTPContext W h ctx r))) = 1
       \<and> responses (fst (ServeHTTPContext W h ctx r)) = []"
proof -
  have l: "loginOk W h ctx r =
           ([SetCookie cfg user],
            Return (Some (Session (Client (oauthConf W h r) (Some tok))), True))"
    by (rule loginOk_token [OF sessionConfig_Return [OF assms(1)] assms(2) _ assms(3)]) simp
  have s: "ServeHTTPContext W h ctx r =
           ([SetCookie cfg user] @
            [case the_handler h of
               ContextHandler n \<Rightarrow>
                 CallServeHTTPContext (the_handler h)
                   (Some (Session (Client (oauthConf W h r) (Some tok))))
             | x \<Rightarrow> CallServeHTTP x],
            Return ())"
    by (rule ServeHTTPContext_ok [OF l])
  have c: "length (handler_calls (fst (ServeHTTPContext W h ctx r))) = 1"
    unfolding s by (simp add: handler_calls_def split: Handler.split)
  have d: "responses (fst (ServeHTTPContext W h ctx r)) = []"
    unfolding s by (simp add: responses_def split: Handler.split)
  from l s c d show ?thesis
    by simp
qed

theorem C6_authenticated_request_witness:
  "session_Get W0 (req ''/dashboard'' [] [(''googlegoauth'', ''T'')]) sess_zero cfg0 = (sess_T, None)
   \<and> OAuthToken sess_T = Some tok0
   \<and> ServeHTTPContext W0 h0 None (req ''/dashboard'' [] [(''googlegoauth'', ''T'')]) =
       ([SetCookie cfg0 sess_T,
         CallServeHTTPContext (ContextHandler ''app'') (Some (Session (Client conf0 (Some tok0))))],
        Return ())"
proof -
  let ?r = "req ''/dashboard'' [] [(''googlegoauth'', ''T'')]"
  have a: "snd (sessionConfig W0 h0) = Return cfg0"
    by (simp add: sessionConfig_concrete)
  have b: "session_Get W0 ?r sess_zero cfg0 = (sess_T, None)"
    by (simp add: concrete_defs)
  have c: "OAuthToken sess_T = Some tok0"
    by (simp add: sess_T_def)
  have d: "the_handler h0 = ContextHandler ''app''"
    by (simp add: the_handler_def h0_def)
  show ?thesis
    using C6_authenticated_request_is_forwarded [OF a b c, of None] b c
    by (simp add: oauthConf_concrete d)
qed

subsection \<open>C7\<close>

text \<open>
  Claim C7: every request that is neither authenticated nor on the callback path gets a
  session with exactly the next URL (the requested resource, scheme https, host of the
  request) and a new CSRF state, and a 307 to the provider's authorization URL with that
  state; the protected handler is not called.

  A request with a cookie that does not decode is not authenticated and need not be on
  the callback path, and it is answered with 500 (the branch of line 108), without a
  redirect and without a new session.
\<close>

theorem C7_unauthenticated_counterexample:
  "url_Path (req_URL (req ''/reports'' [] [(''googlegoauth'', ''expired'')])) \<noteq> callbackPath
   \<and> 307 \<notin> set (responses (fst (ServeHTTPContext W0 h0 None
                   (req ''/reports'' [] [(''googlegoauth'', ''expired'')]))))
   \<and> ServeHTTPContext W0 h0 None (req ''/reports'' [] [(''googlegoauth'', ''expired'')])
       = ([SetCookie (cfg0\<lparr>cfg_MaxAge := - 1000000000\<rparr>) sess_zero,
           HttpError ''internal error'' 500], Return ())"
proof -
  let ?r = "req ''/reports'' [] [(''googlegoauth'', ''expired'')]"
  have a: "url_Path (req_URL ?r) \<noteq> callbackPath"
    by (simp add: concrete_defs)
  have b: "session_Get W0 ?r sess_zero cfg0
             = (sess_zero, Some (DecodeError ''sealbox: invalid message''))"
    by (simp add: concrete_defs)
  have "ServeHTTPContext W0 h0 None ?r
     = ([SetCookie (cfg0\<lparr>cfg_MaxAge := - 1000000000\<rparr>) sess_zero,
         HttpError ''internal error'' 500], Return ())"
    by (rule ServeHTTPContext_not_ok, rule loginOk_decode_error [OF sessionConfig_concrete b])
  with a show ?thesis
    by (simp add: responses_def)
qed

text \<open>
  Claim C7, amended: every request that is not on the callback path and whose cookie is
  absent or decodes without error to a record without a token gets a session with exactly
  the next URL (the requested URL with scheme https and the host of the request) and the
  state that \<^verbatim>\<open>newState\<close> generates for this request (the ten bytes read from
  \<^verbatim>\<open>crypto/rand\<close>, as twenty hexadecimal digits), and a 307 to the provider's
  authorization URL for that same state; the protected handler is not called.
\<close>

theorem C7_login_flow_is_started:
  assumes "snd (sessionConfig W h) = Return cfg"
    and "session_Get W r sess_zero cfg = (user, err)"
    and "err = None \<or> err = Some ErrNoCookie"
    and "OAuthToken user = None"
    and "url_Path (req_URL r) \<noteq> callbackPath"
  shows "ServeHTTPContext W h ctx r =
    ([SetCookie cfg \<lparr>OAuthToken = None,
        NextURL = url_String W ((req_URL r)\<lparr>url_Scheme := ''https'', url_Host := req_Host r\<rparr>),
        State = newState W\<rparr>,
      HttpRedirect (oauth2_AuthCodeURL W (oauthConf W h r) (newState W)) 307],
     Return ())
   \<and> newState W = hex_EncodeToString (take 10 (rand_Read W) @ replicate (10 - length (rand_Read W)) 0)
   \<and> length (newState W) = 20"
proof -
  have "ServeHTTPContext W h ctx r =
    ([SetCookie cfg \<lparr>OAuthToken = None,
        NextURL = url_String W ((req_URL r)\<lparr>url_Scheme := ''https'', url_Host := req_Host r\<rparr>),
        State = newState W\<rparr>,
      HttpRedirect (oauth2_AuthCodeURL W (oauthConf W h r) (newState W)) 307],
     Return ())"
    by (rule ServeHTTPContext_not_ok,
        rule loginOk_start_flow [OF sessionConfig_Return [OF assms(1)] assms(2-5)])
  moreover have "newState W
      = hex_EncodeToString (take 10 (rand_Read W) @ replicate (10 - length (rand_Read W)) 0)"
    by (simp add: newState_def Let_def min_def)
  ultimately show ?thesis
    using newState_length [of W] by simp
qed

theorem C7_login_flow_witness:
  "session_Get W0 (req ''/dashboard'' [] []) sess_zero cfg0 = (sess_zero, Some ErrNoCookie)
   \<and> url_Path (req_URL (req ''/dashboard'' [] [])) \<noteq> callbackPath
   \<and> ServeHTTPContext W0 h0 None (req ''/dashboard'' [] []) =
       ([SetCookie cfg0 \<lparr>OAuthToken = None, NextURL = ''https://app.example.com/dashboard'',
                         State = ''0102030405060708090a''\<rparr>,
         HttpRedirect ''https://accounts.google.com/o/oauth2/auth?state=0102030405060708090a'' 307],
        Return ())"
proof -
  let ?r = "req ''/dashboard'' [] []"
  have a: "snd (sessionConfig W0 h0) = Return cfg0"
    by (simp add: sessionConfig_concrete)
  have b: "session_Get W0 ?r sess_zero cfg0 = (sess_zero, Some ErrNoCookie)"
    by (simp add: concrete_defs)
  have c: "(Some ErrNoCookie = None) \<or> Some ErrNoCookie = Some ErrNoCookie"
    by simp
  have d: "OAuthToken sess_zero = None"
    by (simp add: sess_zero_def)
  have e: "url_Path (req_URL ?r) \<noteq> callbackPath"
    by (simp add: concrete_defs)
  have f: "newState W0 = ''0102030405060708090a''"
    by (simp add: concrete_defs)
  have g: "url_String W0 ((req_URL ?r)\<lparr>url_Scheme := ''https'', url_Host := req_Host ?r\<rparr>)
             = ''https://app.example.com/dashboard''"
    by (simp add: concrete_defs)
  have i: "oauth2_AuthCodeURL W0 conf0 ''0102030405060708090a''
             = ''https://accounts.google.com/o/oauth2/auth?state=0102030405060708090a''"
    by (simp add: concrete_defs)
  show ?thesis
    using C7_login_flow_is_started [OF a b c d e, of None] b e
    by (simp only: oauthConf_concrete f g i) simp
qed

subsection \<open>C8\<close>

text \<open>
  Claim C8: for every callback request whose \<^verbatim>\<open>state\<close> matches the state of the stored
  session, whose code exchange succeeds and which passes the domain check when one is
  configured, the gate writes a new session that holds only the exchanged token and
  answers with a 307 to the stored next URL; the protected handler is not called on this
  request.

  The exchange is only reached by a session without a token (a session with a token is
  forwarded before the path is looked at), so that is part of the hypotheses.
\<close>

theorem C8_callback_success_sets_token_and_redirects:
  assumes "snd (sessionConfig W h) = Return cfg"
    and "session_Get W r sess_zero cfg = (user, None)"
    and "OAuthToken user = None"
    and "url_Path (req_URL r) = callbackPath"
    and "FormValue r ''state'' = State user"
    and "oauth2_Exchange W (oauthConf W h r) (FormValue r ''code'') = Inr tok"
    and "RequireDomain h = [] \<or>
         snd (domainAllowed W (Client (oauthConf W h r) (Some tok)) (RequireDomain h)) = Return True"
  shows "ServeHTTPContext W h ctx r =
    (ExchangeCall (oauthConf W h r) (FormValue r ''code'') #
       (if RequireDomain h = [] then []
        else [ProfileGet (Client (oauthConf W h r) (Some tok)) profileURL]) @
       [SetCookie cfg \<lparr>OAuthToken = Some tok, NextURL = [], State = []\<rparr>,
        HttpRedirect (NextURL user) 307],
     Return ())"
proof -
  let ?es = "if RequireDomain h = [] then []
             else [ProfileGet (Client (oauthConf W h r) (Some tok)) profileURL]"
  have chk: "(if RequireDomain h = [] then ret True
              else domainAllowed W (Client (oauthConf W h r) (Some tok)) (RequireDomain h))
             = (?es, Return True)"
  proof (cases "RequireDomain h = []")
    case True
    then show ?thesis
      by (simp add: ret_def)
  next
    case False
    with assms(7)
    have "snd (domainAllowed W (Client (oauthConf W h r) (Some tok)) (RequireDomain h))
            = Return True"
      by simp
    then have "domainAllowed W (Client (oauthConf W h r) (Some tok)) (RequireDomain h)
            = (fst (domainAllowed W (Client (oauthConf W h r) (Some tok)) (RequireDomain h)),
               Return True)"
      by (metis prod.collapse)
    from this domainAllowed_True_events [OF this] False show ?thesis
      by simp
  qed
  show ?thesis
    by (rule ServeHTTPContext_not_ok,
        rule loginOk_callback_granted
          [OF sessionConfig_Return [OF assms(1)] assms(2) _ assms(3-6) chk])
       simp
qed

theorem C8_callback_success_witness:
  "session_Get W0
      (req ''/oauth2callback'' [(''state'', [''0102030405060708090a'']), (''code'', [''good''])]
         [(''googlegoauth'', ''P'')]) sess_zero cfg0 = (sess_P, None)
   \<and> snd (domainAllowed W0 (Client conf0 (Some tok1)) ''example.com'') = Return True
   \<and> ServeHTTPContext W0 (h0\<lparr>RequireDomain := ''example.com''\<rparr>) None
      (req ''/oauth2callback'' [(''state'', [''0102030405060708090a'']), (''code'', [''good''])]
         [(''googlegoauth'', ''P'')]) =
       ([ExchangeCall conf0 ''good'',
         ProfileGet (Client conf0 (Some tok1)) profileURL,
         SetCookie cfg0 \<lparr>OAuthToken = Some tok1, NextURL = [], State = []\<rparr>,
         HttpRedirect ''https://app.example.com/dashboard'' 307],
        Return ())"
proof -
  let ?r = "req ''/oauth2callback'' [(''state'', [''0102030405060708090a'']), (''code'', [''good''])]
              [(''googlegoauth'', ''P'')]"
  let ?h = "h0\<lparr>RequireDomain := ''example.com''\<rparr>"
  have a: "snd (sessionConfig W0 ?h) = Return cfg0"
    by (simp add: concrete_defs)
  have b: "session_Get W0 ?r sess_zero cfg0 = (sess_P, None)"
    by (simp add: concrete_defs)
  have c: "OAuthToken sess_P = None"
    by (simp add: sess_P_def)
  have d: "url_Path (req_URL ?r) = callbackPath"
    by (simp add: concrete_defs)
  have e: "FormValue ?r ''state'' = State sess_P"
    by (simp add: concrete_defs)
  have f: "FormValue ?r ''code'' = ''good''"
    by (simp add: concrete_defs)
  have o: "oauthConf W0 ?h ?r = conf0"
    by (simp add: concrete_defs)
  have g: "oauth2_Exchange W0 (oauthConf W0 ?h ?r) (FormValue ?r ''code'') = Inr tok1"
    unfolding o f by (simp add: W0_def)
  have da: "snd (domainAllowed W0 (Client conf0 (Some tok1)) ''example.com'') = Return True"
    by (simp add: domainAllowed_def concrete_defs)
  have i: "RequireDomain ?h = [] \<or>
           snd (domainAllowed W0 (Client (oauthConf W0 ?h ?r) (Some tok1)) (RequireDomain ?h))
             = Return True"
    unfolding o using da by simp
  have n: "NextURL sess_P = ''https://app.example.com/dashboard''"
    by (simp add: sess_P_def)
  show ?thesis
    using C8_callback_success_sets_token_and_redirects [OF a b c d e g i, of None] b da
    by (simp add: o f n)
qed

subsection \<open>C9\<close>

text \<open>
  What holds on every run of the gate that returns: the handler is called once and the
  gate writes nothing, or the gate writes one response (307, 401 or 500) and the handler
  is not called.
\<close>

lemma loginOk_decision:
  assumes "loginOk W h ctx r = (es, Return (ctx', ok))"
  shows "handler_calls es = [] \<and>
         (if ok then responses es = []
          else responses es = [307] \<or> responses es = [401] \<or> responses es = [500])"
proof -
  from sessionConfig_cases [of W h] assms obtain cfg
    where sc: "sessionConfig W h = ([], Return cfg)"
    by (auto simp add: loginOk_def)
  obtain user err where sg: "session_Get W r sess_zero cfg = (user, err)"
    by (cases "session_Get W r sess_zero cfg")
  show ?thesis
  proof (cases "\<exists>e. err = Some (DecodeError e)")
    case True
    then obtain e where "err = Some (DecodeError e)" ..
    with loginOk_decode_error [OF sc, of r user e ctx] sg assms show ?thesis
      by (auto simp add: responses_def handler_calls_def)
  next
    case False
    then have ok_err: "err = None \<or> err = Some ErrNoCookie"
      by (cases err) (auto intro: get_error.exhaust)
    show ?thesis
    proof (cases "OAuthToken user")
      case (Some tok)
      from loginOk_token [OF sc sg ok_err Some, of ctx] assms show ?thesis
        by (auto simp add: responses_def handler_calls_def)
    next
      case None
      note no_tok = None
      show ?thesis
      proof (cases "url_Path (req_URL r) = callbackPath")
        case False
        from loginOk_start_flow [OF sc sg ok_err no_tok False, of ctx] assms show ?thesis
          by (auto simp add: responses_def handler_calls_def)
      next
        case True
        note cb = True
        show ?thesis
        proof (cases "FormValue r ''state'' = State user")
          case False
          from loginOk_state_mismatch [OF sc sg ok_err no_tok cb False, of ctx] assms
          show ?thesis
            by (auto simp add: responses_def handler_calls_def)
        next
          case True
          note st = True
          show ?thesis
          proof (cases "oauth2_Exchange W (oauthConf W h r) (FormValue r ''code'')")
            case (Inl x)
            from loginOk_exchange_error [OF sc sg ok_err no_tok cb st Inl, of ctx] assms
            show ?thesis
              by (auto simp add: responses_def handler_calls_def)
          next
            case (Inr tok)
            note ex = Inr
            let ?c = "Client (oauthConf W h r) (Some tok)"
            show ?thesis
            proof (cases "RequireDomain h = []")
              case True
              then have "(if RequireDomain h = [] then ret True
                          else domainAllowed W ?c (RequireDomain h)) = ([], Return True)"
                by (simp add: ret_def)
              from loginOk_callback_granted [OF sc sg ok_err no_tok cb st ex this, of ctx] assms
              show ?thesis
                by (auto simp add: responses_def handler_calls_def)
            next
              case False
              note dom = False
              from domainAllowed_quiet [of W ?c "RequireDomain h"]
              have q: "responses (fst (domainAllowed W ?c (RequireDomain h))) = []"
                  "handler_calls (fst (domainAllowed W ?c (RequireDomain h))) = []"
                by simp_all
              from domainAllowed_results [of W ?c "RequireDomain h"]
              consider (ret) ds b where "domainAllowed W ?c (RequireDomain h) = (ds, Return b)"
                | (pan) ds m where "domainAllowed W ?c (RequireDomain h) = (ds, Panic m)"
                by blast
              then show ?thesis
              proof cases
                case pan
                from loginOk_callback_panic [OF sc sg ok_err no_tok cb st ex dom pan, of ctx] assms
                show ?thesis
                  by simp
              next
                case ret
                from q ret have qd: "responses ds = []" "handler_calls ds = []"
                  by simp_all
                show ?thesis
                proof (cases b)
                  case True
                  with ret dom have "(if RequireDomain h = [] then ret True
                          else domainAllowed W ?c (RequireDomain h)) = (ds, Return True)"
                    by simp
                  from loginOk_callback_granted [OF sc sg ok_err no_tok cb st ex this, of ctx]
                    assms qd
                  show ?thesis
                    by (auto simp add: responses_def handler_calls_def List.map_filter_def)
                next
                  case False
                  with ret have "domainAllowed W ?c (RequireDomain h) = (ds, Return False)"
                    by simp
                  from loginOk_callback_denied [OF sc sg ok_err no_tok cb st ex dom this, of ctx]
                    assms qd
                  show ?thesis
                    by (auto simp add: responses_def handler_calls_def List.map_filter_def)
                qed
              qed
            qed
          qed
        qed
      qed
    qed
  qed
qed

lemma ServeHTTPContext_decision:
  assumes "snd (ServeHTTPContext W h ctx r) = Return ()"
  shows "one_decision (fst (ServeHTTPContext W h ctx r))"
proof -
  obtain es res where l: "loginOk W h ctx r = (es, res)"
    by (cases "loginOk W h ctx r")
  with assms obtain ctx' ok where res: "res = Return (ctx', ok)"
    by (cases res) (auto simp add: ServeHTTPContext_def)
  from loginOk_decision [OF l [unfolded res]]
  have d: "handler_calls es = []"
      "if ok then responses es = []
       else responses es = [307] \<or> responses es = [401] \<or> responses es = [500]"
    by simp_all
  show ?thesis
  proof (cases ok)
    case True
    with l res have "loginOk W h ctx r = (es, Return (ctx', True))"
      by simp
    from ServeHTTPContext_ok [OF this] d True show ?thesis
      by (auto simp add: one_decision_def handler_calls_def responses_def List.map_filter_def
          split: Handler.split)
  next
    case False
    with l res have "loginOk W h ctx r = (es, Return (ctx', False))"
      by simp
    from ServeHTTPContext_not_ok [OF this] d False show ?thesis
      by (auto simp add: one_decision_def)
  qed
qed

text \<open>
  Claim C9: for every inbound request the gate makes exactly one outbound decision: the
  protected handler is called exactly once and the gate writes no response of its own, or
  exactly one response (307, 401 or 500) is written and the handler is never called.

  This holds on every run that returns (\<open>ServeHTTPContext_decision\<close>), but not on the
  callback whose profile request fails in the network: \<^verbatim>\<open>domainAllowed\<close> panics at line
  183 (see C3) before anything was written, so the request ends with no response of the
  gate and no call of the handler.
\<close>

theorem C9_panic_leaves_no_decision:
  assumes "snd (sessionConfig W h) = Return cfg"
    and "session_Get W r sess_zero cfg = (user, None)"
    and "OAuthToken user = None"
    and "url_Path (req_URL r) = callbackPath"
    and "FormValue r ''state'' = State user"
    and "oauth2_Exchange W (oauthConf W h r) (FormValue r ''code'') = Inr tok"
    and "RequireDomain h \<noteq> []"
    and "client_Get W (Client (oauthConf W h r) (Some tok)) profileURL = (None, Some e)"
  shows "ServeHTTPContext W h ctx r =
           ([ExchangeCall (oauthConf W h r) (FormValue r ''code''),
             ProfileGet (Client (oauthConf W h r) (Some tok)) profileURL],
            Panic ''nil pointer dereference'')
       \<and> responses (fst (ServeHTTPContext W h ctx r)) = []
       \<and> handler_calls (fst (ServeHTTPContext W h ctx r)) = []
       \<and> \<not> one_decision (fst (ServeHTTPContext W h ctx r))"
proof -
  have "loginOk W h ctx r =
          (ExchangeCall (oauthConf W h r) (FormValue r ''code'') #
             [ProfileGet (Client (oauthConf W h r) (Some tok)) profileURL],
           Panic ''nil pointer dereference'')"
    by (rule loginOk_callback_panic
          [OF sessionConfig_Return [OF assms(1)] assms(2) _ assms(3-7)
              domainAllowed_nil_response [OF assms(8)]])
       simp
  then have s: "ServeHTTPContext W h ctx r =
           ([ExchangeCall (oauthConf W h r) (FormValue r ''code''),
             ProfileGet (Client (oauthConf W h r) (Some tok)) profileURL],
            Panic ''nil pointer dereference'')"
    by (rule ServeHTTPContext_panic)
  show ?thesis
    unfolding s by (simp add: responses_def handler_calls_def one_decision_def)
qed

theorem C9_panic_witness:
  "session_Get (W0\<lparr>client_Get := (\<lambda>c u. (None, Some ''dial tcp: i/o timeout''))\<rparr>)
      (req ''/oauth2callback'' [(''state'', [''0102030405060708090a'']), (''code'', [''good''])]
         [(''googlegoauth'', ''P'')]) sess_zero cfg0 = (sess_P, None)
   \<and> ServeHTTPContext (W0\<lparr>client_Get := (\<lambda>c u. (None, Some ''dial tcp: i/o timeout''))\<rparr>)
        (h0\<lparr>RequireDomain := ''example.com''\<rparr>) None
        (req ''/oauth2callback'' [(''state'', [''0102030405060708090a'']), (''code'', [''good''])]
           [(''googlegoauth'', ''P'')]) =
       ([ExchangeCall conf0 ''good'', ProfileGet (Client conf0 (Some tok1)) profileURL],
        Panic ''nil pointer dereference'')"
proof -
  let ?W = "W0\<lparr>client_Get := (\<lambda>c u. (None, Some ''dial tcp: i/o timeout''))\<rparr>"
  let ?r = "req ''/oauth2callback'' [(''state'', [''0102030405060708090a'']), (''code'', [''good''])]
              [(''googlegoauth'', ''P'')]"
  let ?h = "h0\<lparr>RequireDomain := ''example.com''\<rparr>"
  have a: "snd (sessionConfig ?W ?h) = Return cfg0"
    by (simp add: concrete_defs)
  have b: "session_Get ?W ?r sess_zero cfg0 = (sess_P, None)"
    by (simp add: concrete_defs)
  have c: "OAuthToken sess_P = None"
    by (simp add: sess_P_def)
  have d: "url_Path (req_URL ?r) = callbackPath"
    by (simp add: concrete_defs)
  have e: "FormValue ?r ''state'' = State sess_P"
    by (simp add: concrete_defs)
  have f: "FormValue ?r ''code'' = ''good''"
    by (simp add: concrete_defs)
  have o: "oauthConf ?W ?h ?r = conf0"
    by (simp add: concrete_defs)
  have g: "oauth2_Exchange ?W (oauthConf ?W ?h ?r) (FormValue ?r ''code'') = Inr tok1"
    unfolding o f by (simp add: W0_def)
  have i: "RequireDomain ?h \<noteq> []"
    by simp
  have j: "client_Get ?W (Client (oauthConf ?W ?h ?r) (Some tok1)) profileURL
             = (None, Some ''dial tcp: i/o timeout'')"
    by simp
  show ?thesis
    using C9_panic_leaves_no_decision [OF a b c d e g i j, of None] b
    by (simp add: o f)
qed

subsection \<open>C10\<close>

lemma no_profile_get_off_callback:
  assumes "url_Path (req_URL r) \<noteq> callbackPath"
  shows "profile_gets (fst (ServeHTTPContext W h ctx r)) = []"
proof -
  from sessionConfig_cases [of W h]
  consider (ok) cfg where "sessionConfig W h = ([], Return cfg)"
    | (exit) m where "sessionConfig W h = ([LogError m], Exit 1)"
    by blast
  then show ?thesis
  proof cases
    case exit
    from gate_stops_with_sessionConfig [OF exit] show ?thesis
      by (simp add: profile_gets_def)
  next
    case ok
    obtain user err where sg: "session_Get W r sess_zero cfg = (user, err)"
      by (cases "session_Get W r sess_zero cfg")
    show ?thesis
    proof (cases "\<exists>e. err = Some (DecodeError e)")
      case True
      then obtain e where "err = Some (DecodeError e)" ..
      with sg have "session_Get W r sess_zero cfg = (user, Some (DecodeError e))"
        by simp
      from ServeHTTPContext_not_ok [OF loginOk_decode_error [OF ok this]] show ?thesis
        by (simp add: profile_gets_def)
    next
      case False
      then have ok_err: "err = None \<or> err = Some ErrNoCookie"
        by (cases err) (auto intro: get_error.exhaust)
      show ?thesis
      proof (cases "OAuthToken user")
        case (Some tok)
        from ServeHTTPContext_ok [OF loginOk_token [OF ok sg ok_err Some]] show ?thesis
          by (simp add: profile_gets_def split: Handler.split)
      next
        case None
        from ServeHTTPContext_not_ok [OF loginOk_start_flow [OF ok sg ok_err None assms]]
        show ?thesis
          by (simp add: profile_gets_def)
      qed
    qed
  qed
qed

text \<open>
  Claim C10: once a session holds a token the domain verifier is not called again: a
  request whose session decodes to a record with a token is forwarded to the protected
  handler without a call of \<^verbatim>\<open>domainAllowed\<close>, also when \<^verbatim>\<open>RequireDomain\<close> is set; the
  domain is verified only while a callback request is processed.

  \<^verbatim>\<open>domainAllowed\<close> starts with the profile request, so its calls are the \<open>ProfileGet\<close>
  events of the trace.
\<close>

theorem C10_domain_checked_only_on_callback:
  "(snd (sessionConfig W h) = Return cfg \<and> session_Get W r sess_zero cfg = (user, None)
      \<and> OAuthToken user = Some tok
    \<longrightarrow> profile_gets (fst (ServeHTTPContext W h ctx r)) = []
      \<and> length (handler_calls (fst (ServeHTTPContext W h ctx r))) = 1
      \<and> snd (ServeHTTPContext W h ctx r) = Return ())
   \<and> (profile_gets (fst (ServeHTTPContext W h ctx r)) \<noteq> []
    \<longrightarrow> url_Path (req_URL r) = callbackPath)"
proof (intro conjI impI)
  assume a: "snd (sessionConfig W h) = Return cfg \<and> session_Get W r sess_zero cfg = (user, None)
      \<and> OAuthToken user = Some tok"
  then have l: "loginOk W h ctx r =
           ([SetCookie cfg user],
            Return (Some (Session (Client (oauthConf W h r) (Some tok))), True))"
    by (intro loginOk_token [OF sessionConfig_Return]) auto
  note s = ServeHTTPContext_ok [OF l]
  show "profile_gets (fst (ServeHTTPContext W h ctx r)) = []"
    unfolding s by (simp add: profile_gets_def split: Handler.split)
  show "length (handler_calls (fst (ServeHTTPContext W h ctx r))) = 1"
    unfolding s by (simp add: handler_calls_def split: Handler.split)
  show "snd (ServeHTTPContext W h ctx r) = Return ()"
    unfolding s by simp
next
  assume "profile_gets (fst (ServeHTTPContext W h ctx r)) \<noteq> []"
  with no_profile_get_off_callback [of r W h ctx] show "url_Path (req_URL r) = callbackPath"
    by blast
qed

theorem C10_domain_checked_only_on_callback_witness:
  "RequireDomain (h0\<lparr>RequireDomain := ''example.com''\<rparr>) = ''example.com''
   \<and> OAuthToken sess_T = Some tok0
   \<and> session_Get W0 (req ''/dashboard'' [] [(''googlegoauth'', ''T'')]) sess_zero cfg0
       = (sess_T, None)
   \<and> profile_gets (fst (ServeHTTPContext W0 (h0\<lparr>RequireDomain := ''example.com''\<rparr>) None
        (req ''/dashboard'' [] [(''googlegoauth'', ''T'')]))) = []
   \<and> length (handler_calls (fst (ServeHTTPContext W0 (h0\<lparr>RequireDomain := ''example.com''\<rparr>) None
        (req ''/dashboard'' [] [(''googlegoauth'', ''T'')])))) = 1
   \<and> profile_gets (fst (ServeHTTPContext W0 (h0\<lparr>RequireDomain := ''example.com''\<rparr>) None
        (req ''/oauth2callback'' [(''state'', [''0102030405060708090a'']), (''code'', [''good''])]
           [(''googlegoauth'', ''P'')])))
       = [ProfileGet (Client conf0 (Some tok1)) profileURL]
   \<and> url_Path (req_URL
        (req ''/oauth2callback'' [(''state'', [''0102030405060708090a'']), (''code'', [''good''])]
           [(''googlegoauth'', ''P'')])) = callbackPath"
proof -
  let ?h = "h0\<lparr>RequireDomain := ''example.com''\<rparr>"
  let ?rT = "req ''/dashboard'' [] [(''googlegoauth'', ''T'')]"
  let ?rC = "req ''/oauth2callback'' [(''state'', [''0102030405060708090a'']), (''code'', [''good''])]
               [(''googlegoauth'', ''P'')]"
  have a: "snd (sessionConfig W0 ?h) = Return cfg0"
    by (simp add: concrete_defs)
  have b: "session_Get W0 ?rT sess_zero cfg0 = (sess_T, None)"
    by (simp add: concrete_defs)
  have c: "OAuthToken sess_T = Some tok0"
    by (simp add: sess_T_def)
  have first: "profile_gets (fst (ServeHTTPContext W0 ?h None ?rT)) = []
      \<and> length (handler_calls (fst (ServeHTTPContext W0 ?h None ?rT))) = 1"
    using C10_domain_checked_only_on_callback [of W0 ?h cfg0 ?rT sess_T tok0 None] a b c
    by simp
  have sc: "sessionConfig W0 ?h = ([], Return cfg0)"
    by (simp add: concrete_defs)
  have sg: "session_Get W0 ?rC sess_zero cfg0 = (sess_P, None)"
    by (simp add: concrete_defs)
  have o: "oauthConf W0 ?h ?rC = conf0"
    by (simp add: concrete_defs)
  have f: "FormValue ?rC ''code'' = ''good''"
    by (simp add: concrete_defs)
  have g: "oauth2_Exchange W0 (oauthConf W0 ?h ?rC) (FormValue ?rC ''code'') = Inr tok1"
    unfolding o f by (simp add: W0_def)
  have da: "(if RequireDomain ?h = [] then ret True
             else domainAllowed W0 (Client (oauthConf W0 ?h ?rC) (Some tok1)) (RequireDomain ?h))
            = ([ProfileGet (Client conf0 (Some tok1)) profileURL], Return True)"
    unfolding o by (simp add: domainAllowed_def concrete_defs)
  have "loginOk W0 ?h None ?rC =
    (ExchangeCall (oauthConf W0 ?h ?rC) (FormValue ?rC ''code'') #
       [ProfileGet (Client conf0 (Some tok1)) profileURL] @
       [SetCookie cfg0 \<lparr>OAuthToken = Some tok1, NextURL = [], State = []\<rparr>,
        HttpRedirect (NextURL sess_P) 307],
     Return (None, False))"
    by (rule loginOk_callback_granted [OF sc sg _ _ _ _ g da])
       (simp_all add: concrete_defs)
  from ServeHTTPContext_not_ok [OF this]
  have second: "profile_gets (fst (ServeHTTPContext W0 ?h None ?rC))
                  = [ProfileGet (Client conf0 (Some tok1)) profileURL]"
    by (simp add: profile_gets_def)
  then have "profile_gets (fst (ServeHTTPContext W0 ?h None ?rC)) \<noteq> []"
    by simp
  with C10_domain_checked_only_on_callback [of W0 ?h cfg0 ?rC sess_T tok0 None]
  have p: "url_Path (req_URL ?rC) = callbackPath"
    by blast
  from first second p b c show ?thesis
    by simp
qed

end
